theory Spec2Isabelle
  imports Complex_Main
begin

section \<open>Qt value types used by the component graphic\<close>

text \<open>
  \<open>QRect\<close> is Qt's integer rectangle. It stores the corner coordinates
  \<open>x1, y1, x2, y2\<close> (fields \<open>r_x1 \<dots> r_y2\<close> here), so that
  \<open>width() = x2 - x1 + 1\<close>, \<open>right() = x2\<close> and \<open>bottom() = y2\<close>.
  The default-constructed rectangle is \<open>(0, 0, -1, -1)\<close>.
\<close>

record QRect =
  r_x1 :: int
  r_y1 :: int
  r_x2 :: int
  r_y2 :: int

definition QRect_null :: QRect where
  "QRect_null = \<lparr>r_x1 = 0, r_y1 = 0, r_x2 = -1, r_y2 = -1\<rparr>"

text \<open>\<open>QRect(QPoint(x, y), QSize(w, h))\<close>.\<close>

definition QRect_of :: "int \<Rightarrow> int \<Rightarrow> int \<Rightarrow> int \<Rightarrow> QRect" where
  "QRect_of x y w h = \<lparr>r_x1 = x, r_y1 = y, r_x2 = x + w - 1, r_y2 = y + h - 1\<rparr>"

definition width :: "QRect \<Rightarrow> int" where
  "width r = r_x2 r - r_x1 r + 1"

definition height :: "QRect \<Rightarrow> int" where
  "height r = r_y2 r - r_y1 r + 1"

definition right :: "QRect \<Rightarrow> int" where
  "right r = r_x2 r"

definition bottom :: "QRect \<Rightarrow> int" where
  "bottom r = r_y2 r"

definition adjust :: "QRect \<Rightarrow> int \<Rightarrow> int \<Rightarrow> int \<Rightarrow> int \<Rightarrow> QRect" where
  "adjust r dx1 dy1 dx2 dy2 =
     \<lparr>r_x1 = r_x1 r + dx1, r_y1 = r_y1 r + dy1, r_x2 = r_x2 r + dx2, r_y2 = r_y2 r + dy2\<rparr>"

definition setRight :: "QRect \<Rightarrow> int \<Rightarrow> QRect" where
  "setRight r x = r\<lparr>r_x2 := x\<rparr>"

definition setBottom :: "QRect \<Rightarrow> int \<Rightarrow> QRect" where
  "setBottom r y = r\<lparr>r_y2 := y\<rparr>"

text \<open>
  \<open>QRectF\<close> is the scene rectangle: position \<open>xp, yp\<close> and size \<open>w, h\<close>
  (fields \<open>f_x, f_y, f_w, f_h\<close>). \<open>qreal\<close> is modelled by exact real numbers.
\<close>

record QRectF =
  f_x :: real
  f_y :: real
  f_w :: real
  f_h :: real

definition QRectF_null :: QRectF where
  "QRectF_null = \<lparr>f_x = 0, f_y = 0, f_w = 0, f_h = 0\<rparr>"

definition leftF :: "QRectF \<Rightarrow> real" where
  "leftF r = f_x r"

definition topF :: "QRectF \<Rightarrow> real" where
  "topF r = f_y r"

definition rightF :: "QRectF \<Rightarrow> real" where
  "rightF r = f_x r + f_w r"

definition bottomF :: "QRectF \<Rightarrow> real" where
  "bottomF r = f_y r + f_h r"

definition adjustF :: "QRectF \<Rightarrow> real \<Rightarrow> real \<Rightarrow> real \<Rightarrow> real \<Rightarrow> QRectF" where
  "adjustF r dx1 dy1 dx2 dy2 =
     \<lparr>f_x = f_x r + dx1, f_y = f_y r + dy1,
      f_w = f_w r + (dx2 - dx1), f_h = f_h r + (dy2 - dy1)\<rparr>"

definition translated :: "QRectF \<Rightarrow> real \<times> real \<Rightarrow> QRectF" where
  "translated r p = r\<lparr>f_x := f_x r + fst p, f_y := f_y r + snd p\<rparr>"

text \<open>
  \<open>QRectF::contains(const QRectF&)\<close>: both rectangles are normalised, a rectangle
  of zero width or height contains nothing and is contained in nothing.
\<close>

definition containsF :: "QRectF \<Rightarrow> QRectF \<Rightarrow> bool" where
  "containsF a b =
     (let l1 = (if f_w a < 0 then f_x a + f_w a else f_x a);
          r1 = (if f_w a < 0 then f_x a else f_x a + f_w a);
          l2 = (if f_w b < 0 then f_x b + f_w b else f_x b);
          r2 = (if f_w b < 0 then f_x b else f_x b + f_w b);
          t1 = (if f_h a < 0 then f_y a + f_h a else f_y a);
          b1 = (if f_h a < 0 then f_y a else f_y a + f_h a);
          t2 = (if f_h b < 0 then f_y b + f_h b else f_y b);
          b2 = (if f_h b < 0 then f_y b else f_y b + f_h b)
      in \<not> (l1 = r1) \<and> \<not> (l2 = r2) \<and> \<not> (l2 < l1 \<or> r2 > r1) \<and>
         \<not> (t1 = b1) \<and> \<not> (t2 = b2) \<and> \<not> (t2 < t1 \<or> b2 > b1))"

section \<open>Grid/scene mapping (anonymous namespace of vsrtl_componentgraphic.cpp)\<close>

text \<open>
  \<open>GRID_SIZE\<close> and \<open>SIDE_MARGIN\<close> are macros of vsrtl_graphics_defines.h. Every
  function that uses one takes it as its first parameter(s) \<open>G\<close> (an integer) and
  \<open>S\<close>.
\<close>

text \<open>
  The source computes with 32-bit \<open>int\<close>, where signed overflow is undefined; the
  model computes with unbounded integers. \<open>int32\<close> says that a value is
  representable, and \<open>roundTripInRange\<close> that every integer which
  \<open>gridToScene\<close> and \<open>sceneToGrid\<close> compute for a rectangle is: the corners, the
  differences and sizes of \<open>width()\<close> and \<open>height()\<close>, and the products
  \<open>gridRect.width() * GRID_SIZE\<close> and \<open>gridRect.height() * GRID_SIZE\<close>. On such a
  rectangle the model and the source compute the same numbers (the products and their
  quotients by \<open>GRID_SIZE\<close> are exact in \<open>double\<close>).
\<close>

definition int32 :: "int \<Rightarrow> bool" where
  "int32 v \<longleftrightarrow> - 2147483648 \<le> v \<and> v \<le> 2147483647"

definition roundTripInRange :: "int \<Rightarrow> QRect \<Rightarrow> bool" where
  "roundTripInRange G r \<longleftrightarrow>
     int32 G \<and> int32 (r_x1 r) \<and> int32 (r_y1 r) \<and> int32 (r_x2 r) \<and> int32 (r_y2 r) \<and>
     int32 (r_x2 r - r_x1 r) \<and> int32 (r_y2 r - r_y1 r) \<and>
     int32 (width r) \<and> int32 (height r) \<and>
     int32 (width r * G) \<and> int32 (height r * G)"

text \<open>\<open>snapToGrid\<close>: C's \<open>round\<close> rounds halves away from zero.\<close>

definition c_round :: "real \<Rightarrow> int" where
  "c_round v = (if 0 \<le> v then \<lfloor>v + 1 / 2\<rfloor> else \<lceil>v - 1 / 2\<rceil>)"

definition snapToGrid :: "int \<Rightarrow> real \<Rightarrow> real" where
  "snapToGrid G v = of_int (c_round (v / of_int G)) * of_int G"

definition gridToScene :: "int \<Rightarrow> QRect \<Rightarrow> QRectF" where
  "gridToScene G gridRect =
     QRectF_null\<lparr>f_w := of_int (width gridRect * G), f_h := of_int (height gridRect * G)\<rparr>"

definition sceneToGrid :: "int \<Rightarrow> QRectF \<Rightarrow> QRect" where
  "sceneToGrid G sceneRect =
     (let sceneRect1 = sceneRect\<lparr>f_w := f_w sceneRect / of_int G\<rparr>;
          sceneRect2 = sceneRect1\<lparr>f_h := f_h sceneRect1 / of_int G\<rparr>
      in QRect_of 0 0 \<lceil>f_w sceneRect2\<rceil> \<lceil>f_h sceneRect2\<rceil>)"

text \<open>
  The containment relation of the properties below: grid rectangle \<open>a\<close> covers grid
  rectangle \<open>b\<close> when every cell of \<open>b\<close> is a cell of \<open>a\<close>.
\<close>

definition covers :: "QRect \<Rightarrow> QRect \<Rightarrow> bool" where
  "covers a b \<longleftrightarrow> r_x1 a \<le> r_x1 b \<and> r_y1 a \<le> r_y1 b \<and> r_x2 b \<le> r_x2 a \<and> r_y2 b \<le> r_y2 a"

section \<open>Helpers of vsrtl_graphics_util.h\<close>

text \<open>
  Modelled from the spec: \<open>roundUp\<close> is declared in vsrtl_graphics_util.h. The
  specification uses it as \<open>roundUp(v, 1 grid unit)\<close>: \<open>v\<close> rounded up to a
  multiple of the unit, that is the least multiple of \<open>m\<close> that is not below \<open>v\<close>.
\<close>

definition roundUp :: "real \<Rightarrow> int \<Rightarrow> int" where
  "roundUp v m = \<lceil>v / of_int m\<rceil> * m"

text \<open>
  Modelled from the spec: the declaration of \<open>roundUp\<close> is not part of these
  sources, so its parameter types are not known. \<open>roundUp_int\<close> is the same rounding
  when the helper takes \<open>int\<close> arguments: the \<open>qreal\<close> argument is first converted
  to \<open>int\<close>, which truncates toward zero.
\<close>

definition roundUp_int :: "real \<Rightarrow> int \<Rightarrow> int" where
  "roundUp_int v m = roundUp (of_int (if 0 \<le> v then \<lfloor>v\<rfloor> else \<lceil>v\<rceil>)) m"

text \<open>
  Modelled from the spec: \<open>boundingRectOfRects\<close> is declared in
  vsrtl_graphics_util.h. The specification calls its result the bounding rectangle of
  the rectangles: the least rectangle that reaches the left-most left edge, the
  right-most right edge, the top-most top edge and the bottom-most bottom edge of its
  two arguments.
\<close>

definition boundingRectOfRects :: "QRectF \<Rightarrow> QRectF \<Rightarrow> QRectF" where
  "boundingRectOfRects a b =
     (let left = min (leftF a) (leftF b);
          right = max (rightF a) (rightF b);
          top = min (topF a) (topF b);
          bottom = max (bottomF a) (bottomF b)
      in \<lparr>f_x = left, f_y = top, f_w = right - left, f_h = bottom - top\<rparr>)"

section \<open>The component graphic\<close>

datatype GeometryChange =
  None_GC | Resize | Expand | Collapse | ChildJustExpanded | ChildJustCollapsed

datatype error =
  AssertionFailed | SpecialPortNotAssigned string | InvalidItem | UnknownComponentKind string

text \<open>
  One \<open>ComponentGraphic\<close>. Graphics items live in a scene and point at each other
  (\<open>parentItem()\<close>, \<open>m_subcomponents\<close>), so an item is named by its address and the
  scene is a store from addresses to items.
  \<^item> \<open>m_expandButton\<close> is \<open>True\<close> when the pointer is not null;
  \<^item> \<open>parentItem\<close> stands for \<open>parentItem()\<close> and \<open>m_parentComponentGraphic\<close>,
    which \<open>createSubcomponents\<close> sets to the same item;
  \<^item> \<open>pos\<close> is \<open>QGraphicsItem::pos()\<close>, the position in the parent's coordinates;
  \<^item> \<open>m_inputPorts\<close> and \<open>m_outputPorts\<close> hold \<open>m_gridIndex\<close> of each port
    graphic, in the order of \<open>getPorts\<close> (declaration order);
  \<^item> \<open>name_length\<close> is \<open>m_component->getName().length()\<close> and
    \<open>simSubComponents\<close> is \<open>m_component->getSubComponents().size()\<close>.
  State that only painting reads (label, shape, button position, grid points, port
  scene positions) is left out.
\<close>

record ComponentGraphic =
  m_minGridRect :: QRect
  m_gridRect :: QRect
  m_isExpanded :: bool
  m_expandButton :: bool
  m_subcomponents :: "nat list"
  parentItem :: "nat option"
  pos :: "real \<times> real"
  m_inputPorts :: "int list"
  m_outputPorts :: "int list"
  name_length :: nat
  simSubComponents :: nat
  m_restrictSubcomponentPositioning :: bool

type_synonym scene = "nat \<Rightarrow> ComponentGraphic option"

definition hasSubcomponents :: "ComponentGraphic \<Rightarrow> bool" where
  "hasSubcomponents cg \<longleftrightarrow> simSubComponents cg \<noteq> 0"

definition sceneGridRect :: "int \<Rightarrow> ComponentGraphic \<Rightarrow> QRectF" where
  "sceneGridRect G cg = gridToScene G (m_gridRect cg)"

definition boundingRect :: "int \<Rightarrow> real \<Rightarrow> ComponentGraphic \<Rightarrow> QRectF" where
  "boundingRect G S cg = adjustF (sceneGridRect G cg) (- S) (- S) S S"

text \<open>
  \<open>mapFromItem(c, c->boundingRect()).boundingRect()\<close> for a child \<open>c\<close>: no item
  has a transformation, so it is the child's bounding rectangle moved by the child's
  position.
\<close>

definition mappedBoundingRect :: "int \<Rightarrow> real \<Rightarrow> ComponentGraphic \<Rightarrow> QRectF" where
  "mappedBoundingRect G S ch = translated (boundingRect G S ch) (pos ch)"

text \<open>The loop of \<open>subcomponentBoundingGridRect\<close>.\<close>

fun subcomponentBounding :: "int \<Rightarrow> real \<Rightarrow> scene \<Rightarrow> nat list \<Rightarrow> QRectF \<Rightarrow> QRectF" where
  "subcomponentBounding G S s [] sceneBoundingRect = sceneBoundingRect"
| "subcomponentBounding G S s (c # cs) sceneBoundingRect =
     (case s c of
        None \<Rightarrow> subcomponentBounding G S s cs sceneBoundingRect
      | Some ch \<Rightarrow>
          subcomponentBounding G S s cs
            (boundingRectOfRects sceneBoundingRect (mappedBoundingRect G S ch)))"

definition subcomponentBoundingGridRect :: "int \<Rightarrow> real \<Rightarrow> scene \<Rightarrow> ComponentGraphic \<Rightarrow> QRect" where
  "subcomponentBoundingGridRect G S s cg =
     sceneToGrid G (subcomponentBounding G S s (m_subcomponents cg) QRectF_null)"

definition rectContainsAllSubcomponents ::
    "int \<Rightarrow> real \<Rightarrow> scene \<Rightarrow> ComponentGraphic \<Rightarrow> QRectF \<Rightarrow> bool" where
  "rectContainsAllSubcomponents G S s cg r =
     list_all (\<lambda>c. case s c of None \<Rightarrow> True
                       | Some ch \<Rightarrow> containsF r (mappedBoundingRect G S ch))
       (m_subcomponents cg)"

text \<open>
  The subcomponents of an item are placed in its positive quadrant: each has a grid
  rectangle of positive width and height and a position of at least \<open>SIDE_MARGIN\<close> in
  both coordinates, so that its bounding rectangle does not reach left of or above the
  item's origin.
\<close>

definition childrenPlaced :: "real \<Rightarrow> scene \<Rightarrow> ComponentGraphic \<Rightarrow> bool" where
  "childrenPlaced S s cg =
     list_all (\<lambda>c. case s c of None \<Rightarrow> True
                       | Some ch \<Rightarrow> 0 < width (m_gridRect ch) \<and> 0 < height (m_gridRect ch) \<and>
                                   S \<le> fst (pos ch) \<and> S \<le> snd (pos ch))
       (m_subcomponents cg)"

definition adjustedMinGridRect :: "ComponentGraphic \<Rightarrow> bool \<Rightarrow> QRect" where
  "adjustedMinGridRect cg includePorts =
     (let adjustedRect = m_minGridRect cg;
          largestPortSize =
            (if length (m_inputPorts cg) > length (m_outputPorts cg)
             then int (length (m_inputPorts cg)) else int (length (m_outputPorts cg)));
          heightToAdd = (largestPortSize + 2) - height adjustedRect;
          adjustedRect1 =
            (if heightToAdd > 0 then adjust adjustedRect 0 0 0 heightToAdd else adjustedRect)
      in if includePorts then
           (let adjustedRect2 =
                  (if length (m_inputPorts cg) > 0 then adjust adjustedRect1 0 0 1 0
                   else adjustedRect1)
            in if length (m_outputPorts cg) > 0 then adjust adjustedRect2 0 0 1 0
               else adjustedRect2)
         else adjustedRect1)"

text \<open>
  \<open>snapToMinGridRect\<close>: \<open>cmpRect\<close> is its local of that name; the result is the
  returned flag together with the adjusted reference argument \<open>r\<close>.
\<close>

definition cmpRect :: "int \<Rightarrow> real \<Rightarrow> scene \<Rightarrow> ComponentGraphic \<Rightarrow> QRect" where
  "cmpRect G S s cg =
     (if hasSubcomponents cg \<and> m_isExpanded cg
      then subcomponentBoundingGridRect G S s cg else adjustedMinGridRect cg True)"

definition snapToMinGridRect ::
    "int \<Rightarrow> real \<Rightarrow> scene \<Rightarrow> ComponentGraphic \<Rightarrow> QRect \<Rightarrow> bool \<times> QRect" where
  "snapToMinGridRect G S s cg r =
     (let snap_r = (right r < right (cmpRect G S s cg));
          r1 = (if snap_r then setRight r (right (cmpRect G S s cg)) else r);
          snap_b = (bottom r1 < bottom (cmpRect G S s cg));
          r2 = (if snap_b then setBottom r1 (bottom (cmpRect G S s cg)) else r1)
      in (\<not> (snap_r \<and> snap_b), r2))"

text \<open>
  Port placement of \<open>updateGeometry\<close>: \<open>seg_y\<close> is the scene height divided by the
  number of ports, port \<open>i\<close> gets \<open>roundUp(i * seg_y + seg_y / 2, GRID_SIZE) / GRID_SIZE\<close>.
  The integer division is exact, since \<open>roundUp\<close> gives a multiple of \<open>GRID_SIZE\<close>.
  With no port the loop body does not run and \<open>seg_y\<close> is not used.
\<close>

definition gridIndexAt :: "int \<Rightarrow> real \<Rightarrow> nat \<Rightarrow> int" where
  "gridIndexAt G seg_y i = roundUp (of_nat i * seg_y + seg_y / 2) G div G"

text \<open>
  The same index with the \<open>int\<close> reading of \<open>roundUp\<close>. \<open>qreal\<close> is modelled by
  exact reals; the port indices below are evaluated only where \<open>seg_y\<close> and
  \<open>i * seg_y + seg_y / 2\<close> are quarters of integers or lie well inside a grid cell, so
  that \<open>double\<close> arithmetic gives the same index, and where both readings of
  \<open>roundUp\<close> agree.
\<close>

definition gridIndexAt_int :: "int \<Rightarrow> real \<Rightarrow> nat \<Rightarrow> int" where
  "gridIndexAt_int G seg_y i = roundUp_int (of_nat i * seg_y + seg_y / 2) G div G"

definition portGridIndices :: "int \<Rightarrow> real \<Rightarrow> nat \<Rightarrow> int list" where
  "portGridIndices G sceneHeight n =
     map (gridIndexAt G (sceneHeight / of_nat n)) [0..<n]"

definition positionPorts :: "int \<Rightarrow> ComponentGraphic \<Rightarrow> ComponentGraphic" where
  "positionPorts G cg =
     (let sceneRect = sceneGridRect G cg
      in cg\<lparr>m_inputPorts := portGridIndices G (f_h sceneRect) (length (m_inputPorts cg)),
            m_outputPorts := portGridIndices G (f_h sceneRect) (length (m_outputPorts cg))\<rparr>)"

text \<open>
  The \<open>switch\<close> of \<open>updateGeometry\<close>: the new \<open>m_gridRect\<close>, or \<open>None\<close> where the
  function returns at once (a resize that \<open>snapToMinGridRect\<close> refuses).
\<close>

definition gridRectSizing ::
    "int \<Rightarrow> real \<Rightarrow> scene \<Rightarrow> ComponentGraphic \<Rightarrow> QRect \<Rightarrow> GeometryChange \<Rightarrow> QRect option" where
  "gridRectSizing G S s cg newGridRect flag =
     (case flag of
        Collapse \<Rightarrow> Some (adjust (adjustedMinGridRect cg False) 0 0 (int (name_length cg) div G) 0)
      | None_GC \<Rightarrow> Some (adjust (adjustedMinGridRect cg False) 0 0 (int (name_length cg) div G) 0)
      | Resize \<Rightarrow>
          (case snapToMinGridRect G S s cg newGridRect of
             (ok, r) \<Rightarrow> if ok then Some r else None)
      | Expand \<Rightarrow> Some (subcomponentBoundingGridRect G S s cg)
      | ChildJustCollapsed \<Rightarrow> Some (subcomponentBoundingGridRect G S s cg)
      | ChildJustExpanded \<Rightarrow> Some (subcomponentBoundingGridRect G S s cg))"

text \<open>
  \<open>updateGeometry\<close> on the item at address \<open>n\<close>. \<open>Q_ASSERT\<close> is a failure
  (\<open>AssertionFailed\<close>), a pointer to no item is \<open>InvalidItem\<close>. Step 6 calls the
  parent's \<open>updateGeometry\<close> only when the flag is \<open>Expand\<close> or \<open>Collapse\<close>.
\<close>

function updateGeometry ::
    "int \<Rightarrow> real \<Rightarrow> scene \<Rightarrow> nat \<Rightarrow> QRect \<Rightarrow> GeometryChange \<Rightarrow> error + scene" where
  "updateGeometry G S s n newGridRect flag =
     (case s n of
        None \<Rightarrow> Inl InvalidItem
      | Some cg \<Rightarrow>
          if (flag = Expand \<or> flag = Collapse) \<and> \<not> hasSubcomponents cg
          then Inl AssertionFailed
          else
            (case gridRectSizing G S s cg newGridRect flag of
               None \<Rightarrow> Inr s
             | Some gr \<Rightarrow>
                 (let s' = s(n \<mapsto> positionPorts G (cg\<lparr>m_gridRect := gr\<rparr>))
                  in case parentItem cg of
                       None \<Rightarrow> Inr s'
                     | Some p \<Rightarrow>
                         if flag = Expand \<or> flag = Collapse
                         then updateGeometry G S s' p QRect_null
                                (if flag = Expand then ChildJustExpanded
                                 else ChildJustCollapsed)
                         else Inr s')))"
  by pat_completeness auto
termination
  by (relation "measure (\<lambda>(G, S, s, n, r, flag).
        if flag = Expand \<or> flag = Collapse then 1 else 0)") auto

declare updateGeometry.simps [simp del]

text \<open>
  \<open>setExpanded\<close>: the visibility of the children and of the input wires is painting
  state and left out.
\<close>

definition setExpanded :: "int \<Rightarrow> real \<Rightarrow> scene \<Rightarrow> nat \<Rightarrow> bool \<Rightarrow> error + scene" where
  "setExpanded G S s n state =
     (case s n of
        None \<Rightarrow> Inl InvalidItem
      | Some cg \<Rightarrow>
          (let cg1 = cg\<lparr>m_isExpanded := state\<rparr>;
               changeReason =
                 (if m_expandButton cg1
                  then (if m_isExpanded cg1 then Expand else Collapse) else None_GC)
           in updateGeometry G S (s(n \<mapsto> cg1)) n QRect_null changeReason))"

text \<open>
  \<open>itemChange\<close> for \<open>ItemPositionChange\<close> of an item in a scene: the position
  that is returned for the proposed \<open>newPos\<close>. \<open>parent\<close> is the item that
  \<open>m_parentComponentGraphic\<close> points to, if any.
\<close>

definition itemChange ::
    "int \<Rightarrow> real \<Rightarrow> ComponentGraphic option \<Rightarrow> ComponentGraphic \<Rightarrow> real \<times> real \<Rightarrow> real \<times> real" where
  "itemChange G S parent cg newPos =
     (let x = snapToGrid G (fst newPos);
          y = snapToGrid G (snd newPos)
      in case parent of
           None \<Rightarrow> (x, y)
         | Some par \<Rightarrow>
             if \<not> m_restrictSubcomponentPositioning par then (x, y)
             else
               (let parentRect = sceneGridRect G par;
                    thisRect = boundingRect G S cg
                in if containsF parentRect (translated thisRect newPos) then (x, y)
                   else
                     (snapToGrid G (min (rightF parentRect - f_w thisRect)
                                        (max (fst newPos) (leftF parentRect))),
                      snapToGrid G (min (bottomF parentRect - f_h thisRect)
                                        (max (snd newPos) (topF parentRect))))))"

section \<open>Construction\<close>







section \<open>Example items\<close>

text \<open>
  A component graphic without children, parent or expand button, with the given
  minimum grid rectangle, grid rectangle and numbers of input and output ports; the
  concrete checks below start from it. Its name has three characters.
\<close>

definition example_item :: "QRect \<Rightarrow> QRect \<Rightarrow> nat \<Rightarrow> nat \<Rightarrow> ComponentGraphic" where
  "example_item minRect gridRect nIn nOut =
     \<lparr>m_minGridRect = minRect, m_gridRect = gridRect, m_isExpanded = False,
      m_expandButton = False, m_subcomponents = [], parentItem = None, pos = (0, 0),
      m_inputPorts = replicate nIn 0, m_outputPorts = replicate nOut 0, name_length = 3,
      simSubComponents = 0, m_restrictSubcomponentPositioning = True\<rparr>"

text \<open>
  A component graphic with subcomponents and an expand button, at position (28, 28) in
  its parent, with minimum grid rectangle 4 by 4 and no ports.
\<close>

definition example_container :: "QRect \<Rightarrow> nat list \<Rightarrow> nat option \<Rightarrow> bool \<Rightarrow> ComponentGraphic" where
  "example_container gridRect subs parent expanded =
     (example_item (QRect_of 0 0 4 4) gridRect 0 0)
       \<lparr>m_isExpanded := expanded, m_expandButton := True, m_subcomponents := subs,
        parentItem := parent, pos := (28, 28), simSubComponents := length subs\<rparr>"

text \<open>
  Four nested items: 0 contains 1, 1 contains 2, 2 contains the leaf 3. Items 0 and 1
  are expanded, item 2 is collapsed; every grid rectangle is the one that
  \<open>updateGeometry\<close> computes for it with \<open>GRID_SIZE = 14\<close> and \<open>SIDE_MARGIN = 10\<close>.
\<close>

definition example_chain :: scene where
  "example_chain =
     [0 \<mapsto> example_container (QRect_of 0 0 10 10) [1] None True,
      1 \<mapsto> example_container (QRect_of 0 0 7 7) [2] (Some 0) True,
      2 \<mapsto> example_container (QRect_of 0 0 4 4) [3] (Some 1) False,
      3 \<mapsto> (example_item (QRect_of 0 0 3 3) (QRect_of 0 0 3 3) 0 0)
             \<lparr>parentItem := Some 2, pos := (28, 28)\<rparr>]"

text \<open>
  The same items with item 2 expanded (its grid rectangle is then 6 by 6 and that of
  item 1 is 9 by 9, item 0 is given 12 by 12), and with item 2 collapsed but the leaf 3
  at position (0, 0).
\<close>

definition example_chain_expanded :: scene where
  "example_chain_expanded =
     example_chain
       (0 \<mapsto> example_container (QRect_of 0 0 12 12) [1] None True,
        1 \<mapsto> example_container (QRect_of 0 0 9 9) [2] (Some 0) True,
        2 \<mapsto> example_container (QRect_of 0 0 6 6) [3] (Some 1) True)"

definition example_chain_corner :: scene where
  "example_chain_corner =
     example_chain
       (3 \<mapsto> (example_item (QRect_of 0 0 3 3) (QRect_of 0 0 3 3) 0 0)
              \<lparr>parentItem := Some 2, pos := (0, 0)\<rparr>)"

text \<open>
  An expanded item 0 with one input port, one output port and a name of one character,
  containing the leaf 1.
\<close>

definition example_ported :: scene where
  "example_ported =
     [0 \<mapsto> (example_container (QRect_of 0 0 6 6) [1] None True)
             \<lparr>m_inputPorts := [2], m_outputPorts := [2], name_length := 1\<rparr>,
      1 \<mapsto> (example_item (QRect_of 0 0 3 3) (QRect_of 0 0 3 3) 0 0)
             \<lparr>parentItem := Some 0, pos := (28, 28)\<rparr>]"

text \<open>A single item with 2 input and 3 output ports, resized to 8 by 8.\<close>

definition example_resized :: scene where
  "example_resized = [0 \<mapsto> example_item (QRect_of 0 0 4 3) (QRect_of 0 0 8 8) 2 3]"

text \<open>
  Reading a result, for the item at address \<open>n\<close> of the resulting scene: the
  rectangle that \<open>subcomponentBoundingGridRect\<close> gives for it; whether its scene
  rectangle contains all its subcomponents; whether its subcomponents are placed in its
  positive quadrant; whether its grid rectangle is at least as
  wide and as high as its minimum grid rectangle; \<open>m_isExpanded\<close>; \<open>m_gridRect\<close>.
\<close>

definition childrenBoundAt :: "int \<Rightarrow> real \<Rightarrow> error + scene \<Rightarrow> nat \<Rightarrow> QRect option" where
  "childrenBoundAt G S res n =
     (case res of
        Inl e \<Rightarrow> None
      | Inr s \<Rightarrow> (case s n of None \<Rightarrow> None
                  | Some cg \<Rightarrow> Some (subcomponentBoundingGridRect G S s cg)))"

definition containsChildrenAt :: "int \<Rightarrow> real \<Rightarrow> error + scene \<Rightarrow> nat \<Rightarrow> bool" where
  "containsChildrenAt G S res n =
     (case res of
        Inl e \<Rightarrow> False
      | Inr s \<Rightarrow> (case s n of None \<Rightarrow> False
                  | Some cg \<Rightarrow> rectContainsAllSubcomponents G S s cg (sceneGridRect G cg)))"

definition childrenPlacedAt :: "real \<Rightarrow> error + scene \<Rightarrow> nat \<Rightarrow> bool" where
  "childrenPlacedAt S res n =
     (case res of
        Inl e \<Rightarrow> False
      | Inr s \<Rightarrow> (case s n of None \<Rightarrow> False | Some cg \<Rightarrow> childrenPlaced S s cg))"

definition atLeastMinAt :: "error + scene \<Rightarrow> nat \<Rightarrow> bool" where
  "atLeastMinAt res n =
     (case res of
        Inl e \<Rightarrow> False
      | Inr s \<Rightarrow> (case s n of None \<Rightarrow> False
                  | Some cg \<Rightarrow> width (m_minGridRect cg) \<le> width (m_gridRect cg) \<and>
                              height (m_minGridRect cg) \<le> height (m_gridRect cg)))"

definition isExpandedAt :: "error + scene \<Rightarrow> nat \<Rightarrow> bool option" where
  "isExpandedAt res n =
     (case res of Inl e \<Rightarrow> None | Inr s \<Rightarrow> map_option m_isExpanded (s n))"

definition gridRectAt :: "error + scene \<Rightarrow> nat \<Rightarrow> QRect option" where
  "gridRectAt res n =
     (case res of Inl e \<Rightarrow> None | Inr s \<Rightarrow> map_option m_gridRect (s n))"

section \<open>Round trip through the scene\<close>

lemma sceneToGrid_gridToScene:
  assumes "0 < G"
  shows "sceneToGrid G (gridToScene G r) = QRect_of 0 0 (width r) (height r)"
proof -
  have g: "(of_int G :: real) \<noteq> 0" using assms by simp
  have "\<lceil>(of_int (width r * G) :: real) / of_int G\<rceil> = width r"
    using g by simp
  moreover have "\<lceil>(of_int (height r * G) :: real) / of_int G\<rceil> = height r"
    using g by simp
  ultimately show ?thesis
    by (simp add: sceneToGrid_def gridToScene_def QRectF_null_def Let_def)
qed


text \<open>
  C2. For a grid rectangle whose computations fit 32-bit \<open>int\<close>
  (\<open>roundTripInRange\<close>), the round trip \<open>sceneToGrid (gridToScene r)\<close> keeps the
  width and the height of \<open>r\<close> and puts the rectangle at the origin: both functions
  scale the size only. The result covers \<open>r\<close> exactly when the top-left corner of
  \<open>r\<close> is the origin.
\<close>

theorem roundtrip_size_at_origin:
  assumes "0 < G" and "roundTripInRange G r"
  shows "sceneToGrid G (gridToScene G r) = QRect_of 0 0 (width r) (height r) \<and>
         (covers (sceneToGrid G (gridToScene G r)) r \<longleftrightarrow> r_x1 r = 0 \<and> r_y1 r = 0)"
proof -
  have eq: "sceneToGrid G (gridToScene G r) = QRect_of 0 0 (width r) (height r)"
    using assms(1) by (rule sceneToGrid_gridToScene)
  have "covers (QRect_of 0 0 (width r) (height r)) r \<longleftrightarrow> r_x1 r = 0 \<and> r_y1 r = 0"
    by (auto simp: covers_def QRect_of_def width_def height_def)
  with eq show ?thesis by simp
qed

theorem roundtrip_size_at_origin_witness:
  "roundTripInRange 14 (QRect_of 0 0 4 3) \<and>
   sceneToGrid 14 (gridToScene 14 (QRect_of 0 0 4 3)) = QRect_of 0 0 4 3 \<and>
   covers (sceneToGrid 14 (gridToScene 14 (QRect_of 0 0 4 3))) (QRect_of 0 0 4 3)"
proof -
  have h: "roundTripInRange 14 (QRect_of 0 0 4 3)"
    by (simp add: roundTripInRange_def int32_def QRect_of_def width_def height_def)
  show ?thesis
    using roundtrip_size_at_origin [of 14 "QRect_of 0 0 4 3"] h
    by (simp add: QRect_of_def width_def height_def covers_def)
qed

theorem roundtrip_loses_position:
  "\<not> covers (sceneToGrid 14 (gridToScene 14 (QRect_of 1 1 2 2))) (QRect_of 1 1 2 2)"
  by (simp add: sceneToGrid_def gridToScene_def QRectF_null_def QRect_of_def width_def
      height_def covers_def Let_def)

section \<open>Minimum grid rectangle with ports\<close>

text \<open>
  C5. A component whose minimum grid rectangle is 4 wide and 3 high, with 2 input and
  3 output ports, has an adjusted minimum grid rectangle (ports included) that is
  6 wide and 5 high.
\<close>

theorem adjustedMinGridRect_scenario:
  assumes "m_minGridRect cg = QRect_of x y 4 3"
    and "length (m_inputPorts cg) = 2"
    and "length (m_outputPorts cg) = 3"
  shows "width (adjustedMinGridRect cg True) = 6 \<and> height (adjustedMinGridRect cg True) = 5"
  using assms
  by (simp add: adjustedMinGridRect_def QRect_of_def adjust_def width_def height_def Let_def)

theorem adjustedMinGridRect_scenario_witness:
  "width (adjustedMinGridRect
     \<lparr>m_minGridRect = QRect_of 0 0 4 3, m_gridRect = QRect_null, m_isExpanded = False,
      m_expandButton = False, m_subcomponents = [], parentItem = None, pos = (0, 0),
      m_inputPorts = [0, 0], m_outputPorts = [0, 0, 0], name_length = 3,
      simSubComponents = 0, m_restrictSubcomponentPositioning = True\<rparr> True) = 6 \<and>
   height (adjustedMinGridRect
     \<lparr>m_minGridRect = QRect_of 0 0 4 3, m_gridRect = QRect_null, m_isExpanded = False,
      m_expandButton = False, m_subcomponents = [], parentItem = None, pos = (0, 0),
      m_inputPorts = [0, 0], m_outputPorts = [0, 0, 0], name_length = 3,
      simSubComponents = 0, m_restrictSubcomponentPositioning = True\<rparr> True) = 5"
  using adjustedMinGridRect_scenario [of
     "\<lparr>m_minGridRect = QRect_of 0 0 4 3, m_gridRect = QRect_null, m_isExpanded = False,
      m_expandButton = False, m_subcomponents = [], parentItem = None, pos = (0, 0),
      m_inputPorts = [0, 0], m_outputPorts = [0, 0, 0], name_length = 3,
      simSubComponents = 0, m_restrictSubcomponentPositioning = True\<rparr>" 0 0]
  by simp


section \<open>Port placement\<close>

lemma positionPorts_other:
  "m_gridRect (positionPorts G cg) = m_gridRect cg"
  "m_minGridRect (positionPorts G cg) = m_minGridRect cg"
  "m_isExpanded (positionPorts G cg) = m_isExpanded cg"
  "m_subcomponents (positionPorts G cg) = m_subcomponents cg"
  "parentItem (positionPorts G cg) = parentItem cg"
  "pos (positionPorts G cg) = pos cg"
  "simSubComponents (positionPorts G cg) = simSubComponents cg"
  by (simp_all add: positionPorts_def Let_def)

lemmas port_eval =
  gridRectSizing_def adjustedMinGridRect_def adjust_def example_item_def QRect_of_def
  QRect_null_def height_def width_def positionPorts_def sceneGridRect_def gridToScene_def
  QRectF_null_def portGridIndices_def gridIndexAt_def gridIndexAt_int_def roundUp_def
  roundUp_int_def Let_def upt_conv_Cons numeral_eq_Suc

text \<open>
  C3. A box without subcomponents, with minimum grid rectangle 4 by 3 and 4 input
  ports, gets the grid rectangle 4 by 6 from \<open>updateGeometry\<close>. Its input port 3 is
  then placed at grid index 6, the height of the box: the index is not kept within
  1 and 5. Both readings of \<open>roundUp\<close> give this index.
\<close>

theorem port_index_not_clamped:
  "gridRectSizing 14 10 Map.empty (example_item (QRect_of 0 0 4 3) QRect_null 4 0)
      QRect_null None_GC = Some (QRect_of 0 0 4 6) \<and>
   height (QRect_of 0 0 4 6) = 6 \<and>
   m_inputPorts (positionPorts 14 (example_item (QRect_of 0 0 4 3) (QRect_of 0 0 4 6) 4 0)) ! 3
     = 6 \<and>
   gridIndexAt_int 14 (of_int (6 * 14) / of_nat 4) 3 = 6 \<and>
   \<not> (m_inputPorts (positionPorts 14 (example_item (QRect_of 0 0 4 3) (QRect_of 0 0 4 6) 4 0)) ! 3
        \<le> height (QRect_of 0 0 4 6) - 1)"
  by (simp add: port_eval)

text \<open>
  C4. A box without subcomponents, with minimum grid rectangle 3 by 3 and 3 output
  ports, gets the grid rectangle 3 by 5 from \<open>updateGeometry\<close>. Its output ports are
  then placed at the grid indices 1, 3 and 5: they increase, but the last one is the
  height of the box and not within 1 and 4. Both readings of \<open>roundUp\<close> give these
  indices.
\<close>

theorem port_at_bottom_edge:
  "gridRectSizing 14 10 Map.empty (example_item (QRect_of 0 0 3 3) QRect_null 0 3)
      QRect_null None_GC = Some (QRect_of 0 0 3 5) \<and>
   height (QRect_of 0 0 3 5) = 5 \<and>
   m_outputPorts (positionPorts 14 (example_item (QRect_of 0 0 3 3) (QRect_of 0 0 3 5) 0 3))
     = [1, 3, 5] \<and>
   map (gridIndexAt_int 14 (of_int (5 * 14) / of_nat 3)) [0, 1, 2] = [1, 3, 5] \<and>
   \<not> (m_outputPorts (positionPorts 14 (example_item (QRect_of 0 0 3 3) (QRect_of 0 0 3 5) 0 3)) ! 2
        \<le> height (QRect_of 0 0 3 5) - 1)"
  by (simp add: port_eval)

section \<open>Geometry updates\<close>

lemma updateGeometry_local:
  assumes "s n = Some cg" and "flag \<noteq> Expand" and "flag \<noteq> Collapse"
  shows "updateGeometry G S s n r flag =
           (case gridRectSizing G S s cg r flag of
              None \<Rightarrow> Inr s
            | Some gr \<Rightarrow> Inr (s(n \<mapsto> positionPorts G (cg\<lparr>m_gridRect := gr\<rparr>))))"
  using assms
  by (subst updateGeometry.simps) (simp add: Let_def split: option.splits)

lemma gridRectSizing_toggle:
  "gridRectSizing G S s cg r Expand = Some (subcomponentBoundingGridRect G S s cg)"
  "gridRectSizing G S s cg r ChildJustExpanded = Some (subcomponentBoundingGridRect G S s cg)"
  "gridRectSizing G S s cg r ChildJustCollapsed = Some (subcomponentBoundingGridRect G S s cg)"
  "gridRectSizing G S s cg r Collapse =
     Some (adjust (adjustedMinGridRect cg False) 0 0 (int (name_length cg) div G) 0)"
  "gridRectSizing G S s cg r None_GC =
     Some (adjust (adjustedMinGridRect cg False) 0 0 (int (name_length cg) div G) 0)"
  by (simp_all add: gridRectSizing_def)

lemma updateGeometry_toggle:
  assumes "s n = Some cg" and "flag = Expand \<or> flag = Collapse" and "hasSubcomponents cg"
    and "gridRectSizing G S s cg r flag = Some gr"
  shows "updateGeometry G S s n r flag =
           (case parentItem cg of
              None \<Rightarrow> Inr (s(n \<mapsto> positionPorts G (cg\<lparr>m_gridRect := gr\<rparr>)))
            | Some p \<Rightarrow>
                updateGeometry G S (s(n \<mapsto> positionPorts G (cg\<lparr>m_gridRect := gr\<rparr>))) p
                  QRect_null (if flag = Expand then ChildJustExpanded else ChildJustCollapsed))"
  using assms
  by (subst updateGeometry.simps) (auto simp add: Let_def split: option.splits)








lemma gridToScene_sceneToGrid:
  "gridToScene G (sceneToGrid G r) =
     \<lparr>f_x = 0, f_y = 0, f_w = of_int \<lceil>f_w r / of_int G\<rceil> * of_int G,
      f_h = of_int \<lceil>f_h r / of_int G\<rceil> * of_int G\<rparr>"
  by (simp add: gridToScene_def sceneToGrid_def QRect_of_def width_def height_def
      QRectF_null_def Let_def)


lemma containsF_origin:
  assumes "0 < f_w b" and "0 < f_h b" and "0 \<le> leftF b" and "0 \<le> topF b"
    and "rightF b \<le> W" and "bottomF b \<le> H"
  shows "containsF \<lparr>f_x = 0, f_y = 0, f_w = W, f_h = H\<rparr> b"
proof -
  have "0 < W" "0 < H"
    using assms by (simp_all add: leftF_def rightF_def topF_def bottomF_def)
  then show ?thesis
    using assms by (simp add: containsF_def leftF_def rightF_def topF_def bottomF_def Let_def)
qed


lemma updateGeometry_toggle_parent:
  assumes "s n = Some cg" and "flag = Expand \<or> flag = Collapse" and "hasSubcomponents cg"
    and "gridRectSizing G S s cg r flag = Some gr"
    and "parentItem cg = Some p" and "p \<noteq> n" and "s p = Some pg"
  shows "updateGeometry G S s n r flag =
           Inr ((s(n \<mapsto> positionPorts G (cg\<lparr>m_gridRect := gr\<rparr>)))
                  (p \<mapsto> positionPorts G (pg\<lparr>m_gridRect :=
                        subcomponentBoundingGridRect G S
                          (s(n \<mapsto> positionPorts G (cg\<lparr>m_gridRect := gr\<rparr>))) pg\<rparr>)))"
proof -
  let ?s1 = "s(n \<mapsto> positionPorts G (cg\<lparr>m_gridRect := gr\<rparr>))"
  let ?f = "if flag = Expand then ChildJustExpanded else ChildJustCollapsed"
  have "updateGeometry G S s n r flag = updateGeometry G S ?s1 p QRect_null ?f"
    using assms(1-5) by (simp add: updateGeometry_toggle)
  moreover have "?s1 p = Some pg" using assms(6,7) by simp
  moreover have "?f \<noteq> Expand" "?f \<noteq> Collapse" by simp_all
  ultimately show ?thesis
    using assms(2) by (auto simp: updateGeometry_local gridRectSizing_toggle)
qed

section \<open>Resizing\<close>

lemmas scene_eval =
  example_chain_def example_chain_expanded_def example_chain_corner_def example_ported_def
  example_resized_def example_container_def
  example_item_def setExpanded_def updateGeometry.simps gridRectSizing_def
  snapToMinGridRect_def cmpRect_def setRight_def setBottom_def right_def bottom_def
  subcomponentBoundingGridRect_def mappedBoundingRect_def boundingRect_def sceneGridRect_def
  gridToScene_def sceneToGrid_def boundingRectOfRects_def translated_def adjustF_def
  QRectF_null_def QRect_null_def QRect_of_def width_def height_def leftF_def rightF_def
  topF_def bottomF_def hasSubcomponents_def positionPorts_def portGridIndices_def
  gridIndexAt_def roundUp_def gridRectAt_def childrenBoundAt_def containsChildrenAt_def
  atLeastMinAt_def isExpandedAt_def childrenPlaced_def childrenPlacedAt_def gridIndexAt_int_def roundUp_int_def
  rectContainsAllSubcomponents_def containsF_def Let_def adjustedMinGridRect_def adjust_def
  upt_conv_Cons numeral_eq_Suc

lemma snapToMinGridRect_cases:
  "snapToMinGridRect G S s cg r =
     (\<not> (right r < right (cmpRect G S s cg) \<and> bottom r < bottom (cmpRect G S s cg)),
      r\<lparr>r_x2 := max (right r) (right (cmpRect G S s cg)),
        r_y2 := max (bottom r) (bottom (cmpRect G S s cg))\<rparr>)"
  by (auto simp: snapToMinGridRect_def Let_def setRight_def setBottom_def right_def
      bottom_def max_def)

text \<open>
  C6. A resize proposal \<open>r\<close> is refused, and the scene is left as it was, exactly when both
  the right edge and the bottom edge of \<open>r\<close> are below those of the minimum-satisfying
  rectangle \<open>cmpRect\<close>. In every other case the edge of \<open>r\<close> that is below is moved
  onto the edge of \<open>cmpRect\<close> and the adjusted rectangle becomes the grid rectangle.
  Neither case is an error.
\<close>

theorem resize_rejected_iff_both_edges_below:
  assumes "s n = Some cg"
  shows "(right r < right (cmpRect G S s cg) \<and> bottom r < bottom (cmpRect G S s cg) \<longrightarrow>
            updateGeometry G S s n r Resize = Inr s) \<and>
         (\<not> (right r < right (cmpRect G S s cg) \<and> bottom r < bottom (cmpRect G S s cg)) \<longrightarrow>
            updateGeometry G S s n r Resize =
              Inr (s(n \<mapsto> positionPorts G
                     (cg\<lparr>m_gridRect :=
                           r\<lparr>r_x2 := max (right r) (right (cmpRect G S s cg)),
                             r_y2 := max (bottom r) (bottom (cmpRect G S s cg))\<rparr>\<rparr>))))"
  using assms
  by (simp add: updateGeometry_local gridRectSizing_def snapToMinGridRect_cases)

theorem resize_rejected_iff_both_edges_below_witness:
  "updateGeometry 14 10 example_resized 0 (QRect_of 0 0 5 4) Resize = Inr example_resized \<and>
   gridRectAt (updateGeometry 14 10 example_resized 0 (QRect_of 0 0 9 7) Resize) 0
     = Some (QRect_of 0 0 9 7)"
proof -
  have s: "example_resized 0 = Some (example_item (QRect_of 0 0 4 3) (QRect_of 0 0 8 8) 2 3)"
    by (simp add: example_resized_def)
  have c: "cmpRect 14 10 example_resized (example_item (QRect_of 0 0 4 3) (QRect_of 0 0 8 8) 2 3)
             = QRect_of 0 0 6 5"
    by (simp add: scene_eval)
  show ?thesis
    using resize_rejected_iff_both_edges_below [of example_resized 0
        "example_item (QRect_of 0 0 4 3) (QRect_of 0 0 8 8) 2 3" "QRect_of 0 0 5 4" 14 10]
      resize_rejected_iff_both_edges_below [of example_resized 0
        "example_item (QRect_of 0 0 4 3) (QRect_of 0 0 8 8) 2 3" "QRect_of 0 0 9 7" 14 10]
    unfolding c
    by (simp add: s QRect_of_def right_def bottom_def gridRectAt_def positionPorts_other)
qed

theorem resize_smaller_accepted:
  "cmpRect 14 10 example_resized (example_item (QRect_of 0 0 4 3) (QRect_of 0 0 8 8) 2 3)
     = QRect_of 0 0 6 5 \<and>
   gridRectAt (Inr example_resized) 0 = Some (QRect_of 0 0 8 8) \<and>
   gridRectAt (updateGeometry 14 10 example_resized 0 (QRect_of 0 0 6 3) Resize) 0
     = Some (QRect_of 0 0 6 5) \<and>
   gridRectAt (updateGeometry 14 10 example_resized 0 (QRect_of 0 0 3 10) Resize) 0
     = Some (QRect_of 0 0 6 10) \<and>
   updateGeometry 14 10 example_resized 0 (QRect_of 0 0 6 3) Resize \<noteq> Inr example_resized"
proof -
  have a: "cmpRect 14 10 example_resized (example_item (QRect_of 0 0 4 3) (QRect_of 0 0 8 8) 2 3)
     = QRect_of 0 0 6 5"
    by (simp add: scene_eval)
  have b: "gridRectAt (Inr example_resized) 0 = Some (QRect_of 0 0 8 8)"
    by (simp add: scene_eval)
  have c: "gridRectAt (updateGeometry 14 10 example_resized 0 (QRect_of 0 0 6 3) Resize) 0
     = Some (QRect_of 0 0 6 5)"
    by (simp add: scene_eval)
  have d: "gridRectAt (updateGeometry 14 10 example_resized 0 (QRect_of 0 0 3 10) Resize) 0
     = Some (QRect_of 0 0 6 10)"
    by (simp add: scene_eval)
  have "QRect_of 0 0 6 5 \<noteq> QRect_of 0 0 8 8" by (simp add: QRect_of_def)
  then have "updateGeometry 14 10 example_resized 0 (QRect_of 0 0 6 3) Resize \<noteq> Inr example_resized"
    using b c by auto
  then show ?thesis using a b c d by simp
qed

section \<open>Expanding and collapsing\<close>

lemma gridRectSizing_toggle_Some:
  assumes "flag = Expand \<or> flag = Collapse"
  shows "gridRectSizing G S s cg r flag =
           Some (if flag = Expand then subcomponentBoundingGridRect G S s cg
                 else adjust (adjustedMinGridRect cg False) 0 0 (int (name_length cg) div G) 0)"
  using assms by (auto simp: gridRectSizing_toggle)

text \<open>
  C8. An \<open>Expand\<close> or \<open>Collapse\<close> of an item that has a parent recomputes the item and
  then calls the parent once, with \<open>ChildJustExpanded\<close> or \<open>ChildJustCollapsed\<close>; the
  parent recomputes its own grid rectangle from its subcomponents and calls no one.
  Every other item of the scene, the grandparent among them, is left as it was.
\<close>

theorem toggle_reaches_parent_only:
  assumes "s n = Some cg" and "flag = Expand \<or> flag = Collapse" and "hasSubcomponents cg"
    and "parentItem cg = Some p" and "p \<noteq> n" and "s p = Some pg"
    and "gr = (if flag = Expand then subcomponentBoundingGridRect G S s cg
               else adjust (adjustedMinGridRect cg False) 0 0 (int (name_length cg) div G) 0)"
    and "s1 = s(n \<mapsto> positionPorts G (cg\<lparr>m_gridRect := gr\<rparr>))"
  shows "\<exists>s'. updateGeometry G S s n r flag = Inr s' \<and>
           updateGeometry G S s1 p QRect_null
             (if flag = Expand then ChildJustExpanded else ChildJustCollapsed) = Inr s' \<and>
           gridRectAt (Inr s') n = Some gr \<and>
           gridRectAt (Inr s') p = Some (subcomponentBoundingGridRect G S s1 pg) \<and>
           (\<forall>m. m \<noteq> n \<and> m \<noteq> p \<longrightarrow> s' m = s m) \<and>
           (\<forall>g. parentItem pg = Some g \<and> g \<noteq> n \<and> g \<noteq> p \<longrightarrow>
                gridRectAt (Inr s') g = gridRectAt (Inr s) g)"
proof -
  let ?f = "if flag = Expand then ChildJustExpanded else ChildJustCollapsed"
  let ?s' = "s1(p \<mapsto> positionPorts G (pg\<lparr>m_gridRect := subcomponentBoundingGridRect G S s1 pg\<rparr>))"
  have sz: "gridRectSizing G S s cg r flag = Some gr"
    using assms(2,7) by (simp only: gridRectSizing_toggle_Some)
  have a: "updateGeometry G S s n r flag = Inr ?s'"
    unfolding assms(8)
    using assms(1,2,3) sz assms(4,5,6) by (rule updateGeometry_toggle_parent)
  have p1: "s1 p = Some pg" using assms(5,6,8) by simp
  have "?f \<noteq> Expand" "?f \<noteq> Collapse" by simp_all
  then have b: "updateGeometry G S s1 p QRect_null ?f = Inr ?s'"
    using p1 assms(2) by (auto simp: updateGeometry_local gridRectSizing_toggle)
  have c: "gridRectAt (Inr ?s') n = Some gr"
    using assms(5,8) by (simp add: gridRectAt_def positionPorts_other)
  have d: "gridRectAt (Inr ?s') p = Some (subcomponentBoundingGridRect G S s1 pg)"
    by (simp add: gridRectAt_def positionPorts_other)
  have e: "\<forall>m. m \<noteq> n \<and> m \<noteq> p \<longrightarrow> ?s' m = s m"
    using assms(8) by simp
  then have "\<forall>g. parentItem pg = Some g \<and> g \<noteq> n \<and> g \<noteq> p \<longrightarrow>
                gridRectAt (Inr ?s') g = gridRectAt (Inr s) g"
    by (simp add: gridRectAt_def)
  with a b c d e show ?thesis by blast
qed

theorem toggle_reaches_parent_only_witness:
  "gridRectAt (updateGeometry 14 10 example_chain 2 QRect_null Expand) 2 = Some (QRect_of 0 0 6 6) \<and>
   gridRectAt (updateGeometry 14 10 example_chain 2 QRect_null Expand) 1 = Some (QRect_of 0 0 9 9) \<and>
   gridRectAt (updateGeometry 14 10 example_chain 2 QRect_null Expand) 0 = Some (QRect_of 0 0 10 10)"
proof -
  let ?cg = "example_container (QRect_of 0 0 4 4) [3] (Some 1) False"
  let ?pg = "example_container (QRect_of 0 0 7 7) [2] (Some 0) True"
  let ?gr = "subcomponentBoundingGridRect 14 10 example_chain ?cg"
  let ?s1 = "example_chain(2 \<mapsto> positionPorts 14 (?cg\<lparr>m_gridRect := ?gr\<rparr>))"
  have h: "example_chain 2 = Some ?cg" "hasSubcomponents ?cg" "parentItem ?cg = Some 1"
    "example_chain 1 = Some ?pg" "parentItem ?pg = Some 0"
    by (simp_all add: example_chain_def example_container_def hasSubcomponents_def)
  have g: "?gr = QRect_of 0 0 6 6"
    by (simp add: scene_eval)
  have g1: "subcomponentBoundingGridRect 14 10 ?s1 ?pg = QRect_of 0 0 9 9"
    unfolding g by (simp add: scene_eval)
  have g0: "gridRectAt (Inr example_chain) 0 = Some (QRect_of 0 0 10 10)"
    by (simp add: scene_eval)
  from toggle_reaches_parent_only [of example_chain 2 ?cg Expand 1 ?pg ?gr 14 10 ?s1 QRect_null]
  obtain s' where s': "updateGeometry 14 10 example_chain 2 QRect_null Expand = Inr s'"
      "gridRectAt (Inr s') 2 = Some ?gr"
      "gridRectAt (Inr s') 1 = Some (subcomponentBoundingGridRect 14 10 ?s1 ?pg)"
      "\<forall>g. parentItem ?pg = Some g \<and> g \<noteq> 2 \<and> g \<noteq> 1 \<longrightarrow>
                gridRectAt (Inr s') g = gridRectAt (Inr example_chain) g"
    using h by auto
  have "gridRectAt (Inr s') 0 = gridRectAt (Inr example_chain) 0"
    using s'(4) h(5) by simp
  then show ?thesis using s'(1,2,3) g g1 g0 by simp
qed

theorem grandparent_not_recomputed:
  "gridRectAt (Inr example_chain) 1 = Some (QRect_of 0 0 7 7) \<and>
   gridRectAt (updateGeometry 14 10 example_chain 2 QRect_null Expand) 1 = Some (QRect_of 0 0 9 9) \<and>
   gridRectAt (Inr example_chain) 0 = Some (QRect_of 0 0 10 10) \<and>
   gridRectAt (updateGeometry 14 10 example_chain 2 QRect_null Expand) 0 = Some (QRect_of 0 0 10 10) \<and>
   childrenBoundAt 14 10 (updateGeometry 14 10 example_chain 2 QRect_null Expand) 0
     = Some (QRect_of 0 0 12 12)"
  by (simp add: scene_eval)






section \<open>The containment invariant\<close>















section \<open>Construction errors\<close>









section \<open>Moving an item\<close>

lemma c_round_bounds:
  assumes "of_int a \<le> v" and "v \<le> of_int b"
  shows "a \<le> c_round v \<and> c_round v \<le> b"
proof (cases "0 \<le> v")
  case True
  have "of_int a \<le> v + 1 / 2" using assms(1) by simp
  moreover have "v + 1 / 2 < of_int b + 1" using assms(2) by simp
  ultimately show ?thesis
    using True by (simp add: c_round_def le_floor_iff floor_le_iff)
next
  case False
  have "of_int a - 1 < v - 1 / 2" using assms(1) by simp
  moreover have "v - 1 / 2 \<le> of_int b" using assms(2) by simp
  ultimately show ?thesis
    using False by (simp add: c_round_def ceiling_le_iff le_ceiling_iff)
qed

lemma snapToGrid_bounds:
  assumes "0 < G" and "of_int a * of_int G \<le> v" and "v \<le> of_int b * of_int G"
  shows "of_int a * of_int G \<le> snapToGrid G v \<and> snapToGrid G v \<le> of_int b * of_int G"
proof -
  have g: "0 < (of_int G :: real)" using assms(1) by simp
  have "of_int a \<le> v / of_int G" "v / of_int G \<le> of_int b"
    using assms(2,3) g by (simp_all add: pos_le_divide_eq pos_divide_le_eq)
  then have "a \<le> c_round (v / of_int G) \<and> c_round (v / of_int G) \<le> b"
    by (rule c_round_bounds)
  then have "(of_int a :: real) \<le> of_int (c_round (v / of_int G))"
    "(of_int (c_round (v / of_int G)) :: real) \<le> of_int b"
    by simp_all
  then show ?thesis
    using g by (simp add: snapToGrid_def mult_right_mono)
qed

lemma contained_coordinate:
  assumes "0 \<le> (S :: real)" and "0 < w" and "w + 2 * S \<le> W"
    and "\<not> (x - S < 0 \<or> x - S + (w + 2 * S) > W)"
  shows "0 \<le> x \<and> x \<le> W - w"
  using assms by (auto simp: not_less)

lemma clamped_coordinate:
  assumes "0 \<le> (S :: real)" and "w + 2 * S \<le> W"
  shows "0 \<le> min (W - (w + 2 * S)) (max x 0) \<and> min (W - (w + 2 * S)) (max x 0) \<le> W - w"
  using assms by (auto simp: min_def max_def)

lemma itemChange_restricted:
  assumes "m_restrictSubcomponentPositioning par"
  shows "itemChange G S (Some par) cg newPos =
          (if containsF (sceneGridRect G par) (translated (boundingRect G S cg) newPos)
           then (snapToGrid G (fst newPos), snapToGrid G (snd newPos))
           else (snapToGrid G (min (rightF (sceneGridRect G par) - f_w (boundingRect G S cg))
                                   (max (fst newPos) (leftF (sceneGridRect G par)))),
                 snapToGrid G (min (bottomF (sceneGridRect G par) - f_h (boundingRect G S cg))
                                   (max (snd newPos) (topF (sceneGridRect G par))))))"
  using assms by (simp add: itemChange_def Let_def)

lemma rects_simps:
  "sceneGridRect G cg = \<lparr>f_x = 0, f_y = 0, f_w = of_int (width (m_gridRect cg)) * of_int G,
                          f_h = of_int (height (m_gridRect cg)) * of_int G\<rparr>"
  "boundingRect G S cg = \<lparr>f_x = - S, f_y = - S,
                          f_w = of_int (width (m_gridRect cg)) * of_int G + 2 * S,
                          f_h = of_int (height (m_gridRect cg)) * of_int G + 2 * S\<rparr>"
  by (simp_all add: sceneGridRect_def boundingRect_def gridToScene_def adjustF_def QRectF_null_def)

lemma itemChange_inside:
  assumes "0 < G" and "0 \<le> S" and "m_restrictSubcomponentPositioning par"
    and "0 < width (m_gridRect cg)" and "0 < height (m_gridRect cg)"
    and "f_w (boundingRect G S cg) \<le> f_w (sceneGridRect G par)"
    and "f_h (boundingRect G S cg) \<le> f_h (sceneGridRect G par)"
  shows "containsF (sceneGridRect G par)
           (translated (sceneGridRect G cg) (itemChange G S (Some par) cg newPos))"
proof -
  let ?W = "width (m_gridRect par)" and ?H = "height (m_gridRect par)"
  let ?w = "width (m_gridRect cg)" and ?h = "height (m_gridRect cg)"
  let ?p = "itemChange G S (Some par) cg newPos"
  have g: "0 < (of_int G :: real)" using assms(1) by simp
  have w: "0 < of_int ?w * (of_int G :: real)" "0 < of_int ?h * (of_int G :: real)"
    using assms(1,4,5) by simp_all
  have fw: "of_int ?w * of_int G + 2 * S \<le> of_int ?W * (of_int G :: real)"
    using assms(6) by (simp add: rects_simps)
  have fh: "of_int ?h * of_int G + 2 * S \<le> of_int ?H * (of_int G :: real)"
    using assms(7) by (simp add: rects_simps)
  have W: "0 < of_int ?W * (of_int G :: real)" "0 < of_int ?H * (of_int G :: real)"
    using w fw fh assms(2) by linarith+
  have x: "0 \<le> fst ?p \<and> fst ?p + of_int ?w * of_int G \<le> of_int ?W * of_int G"
  proof -
    have "\<exists>v. fst ?p = snapToGrid G v \<and> 0 \<le> v \<and> v \<le> of_int ?W * of_int G - of_int ?w * of_int G"
    proof (cases "containsF (sceneGridRect G par) (translated (boundingRect G S cg) newPos)")
      case True
      then have "\<not> (fst newPos - S < 0 \<or>
                    fst newPos - S + (of_int ?w * of_int G + 2 * S) > of_int ?W * of_int G)"
        using W w assms(2)
        by (auto simp: containsF_def rects_simps translated_def Let_def split: if_splits)
      then have "0 \<le> fst newPos \<and> fst newPos \<le> of_int ?W * of_int G - of_int ?w * of_int G"
        using assms(2) w(1) fw by (intro contained_coordinate) auto
      then show ?thesis
        using True assms(3) by (auto simp: itemChange_restricted)
    next
      case False
      then have "fst ?p = snapToGrid G (min (of_int ?W * of_int G - (of_int ?w * of_int G + 2 * S))
                                   (max (fst newPos) 0))"
        using assms(3) by (simp add: itemChange_restricted rects_simps rightF_def leftF_def)
      then show ?thesis
        using clamped_coordinate [OF assms(2) fw, of "fst newPos"] by blast
    qed
    then obtain v where v: "fst ?p = snapToGrid G v" "0 \<le> v"
        "v \<le> of_int (?W - ?w) * of_int G"
      by (auto simp: algebra_simps)
    have "of_int 0 * of_int G \<le> snapToGrid G v \<and> snapToGrid G v \<le> of_int (?W - ?w) * of_int G"
      using assms(1) v(2,3) by (intro snapToGrid_bounds) simp_all
    then show ?thesis using v(1) by (simp add: algebra_simps)
  qed
  have y: "0 \<le> snd ?p \<and> snd ?p + of_int ?h * of_int G \<le> of_int ?H * of_int G"
  proof -
    have "\<exists>v. snd ?p = snapToGrid G v \<and> 0 \<le> v \<and> v \<le> of_int ?H * of_int G - of_int ?h * of_int G"
    proof (cases "containsF (sceneGridRect G par) (translated (boundingRect G S cg) newPos)")
      case True
      then have "\<not> (snd newPos - S < 0 \<or>
                    snd newPos - S + (of_int ?h * of_int G + 2 * S) > of_int ?H * of_int G)"
        using W w assms(2)
        by (auto simp: containsF_def rects_simps translated_def Let_def split: if_splits)
      then have "0 \<le> snd newPos \<and> snd newPos \<le> of_int ?H * of_int G - of_int ?h * of_int G"
        using assms(2) w(2) fh by (intro contained_coordinate) auto
      then show ?thesis
        using True assms(3) by (auto simp: itemChange_restricted)
    next
      case False
      then have "snd ?p = snapToGrid G (min (of_int ?H * of_int G - (of_int ?h * of_int G + 2 * S))
                                   (max (snd newPos) 0))"
        using assms(3) by (simp add: itemChange_restricted rects_simps bottomF_def topF_def)
      then show ?thesis
        using clamped_coordinate [OF assms(2) fh, of "snd newPos"] by blast
    qed
    then obtain v where v: "snd ?p = snapToGrid G v" "0 \<le> v"
        "v \<le> of_int (?H - ?h) * of_int G"
      by (auto simp: algebra_simps)
    have "of_int 0 * of_int G \<le> snapToGrid G v \<and> snapToGrid G v \<le> of_int (?H - ?h) * of_int G"
      using assms(1) v(2,3) by (intro snapToGrid_bounds) simp_all
    then show ?thesis using v(1) by (simp add: algebra_simps)
  qed
  let ?b = "translated (sceneGridRect G cg) ?p"
  have b: "0 < f_w ?b" "0 < f_h ?b" "0 \<le> leftF ?b" "0 \<le> topF ?b"
    "rightF ?b \<le> of_int ?W * of_int G" "bottomF ?b \<le> of_int ?H * of_int G"
    using x y w
    by (simp_all only: rects_simps translated_def leftF_def rightF_def topF_def bottomF_def
        QRectF.simps add_0)
  have "containsF \<lparr>f_x = 0, f_y = 0, f_w = of_int ?W * of_int G, f_h = of_int ?H * of_int G\<rparr> ?b"
    using b by (rule containsF_origin)
  then show ?thesis by (simp only: rects_simps(1))
qed


lemma snapToGrid_multiple: "\<exists>k. snapToGrid G v = of_int k * of_int G"
  by (auto simp: snapToGrid_def)

text \<open>
  C7. The position that \<open>itemChange\<close> returns for a proposed position is always on the
  grid. Without a parent, or with a parent that does not restrict the positioning of
  its subcomponents, it is the proposed position snapped to the grid. With a parent
  that restricts positioning, and a box whose bounding rectangle is not larger than
  the parent's scene rectangle, the scene rectangle of the box (its grid rectangle,
  without the side margin) at the returned position lies inside the parent's scene
  rectangle.
\<close>

theorem move_snapped_and_inside_parent:
  assumes "0 < G" and "0 \<le> S"
  shows "(\<exists>i j. itemChange G S parent cg newPos = (of_int i * of_int G, of_int j * of_int G)) \<and>
         (parent = None \<or> (\<exists>par. parent = Some par \<and> \<not> m_restrictSubcomponentPositioning par)
            \<longrightarrow> itemChange G S parent cg newPos
                  = (snapToGrid G (fst newPos), snapToGrid G (snd newPos))) \<and>
         (\<forall>par. parent = Some par \<and> m_restrictSubcomponentPositioning par \<and>
                0 < width (m_gridRect cg) \<and> 0 < height (m_gridRect cg) \<and>
                f_w (boundingRect G S cg) \<le> f_w (sceneGridRect G par) \<and>
                f_h (boundingRect G S cg) \<le> f_h (sceneGridRect G par)
            \<longrightarrow> containsF (sceneGridRect G par)
                  (translated (sceneGridRect G cg) (itemChange G S parent cg newPos)))"
proof -
  have A: "\<exists>i j. itemChange G S parent cg newPos = (of_int i * of_int G, of_int j * of_int G)"
    using snapToGrid_multiple [of G]
    by (simp add: itemChange_def Let_def split: option.splits)
  have B: "parent = None \<or> (\<exists>par. parent = Some par \<and> \<not> m_restrictSubcomponentPositioning par)
            \<longrightarrow> itemChange G S parent cg newPos
                  = (snapToGrid G (fst newPos), snapToGrid G (snd newPos))"
    by (auto simp: itemChange_def Let_def)
  have C: "\<forall>par. parent = Some par \<and> m_restrictSubcomponentPositioning par \<and>
                0 < width (m_gridRect cg) \<and> 0 < height (m_gridRect cg) \<and>
                f_w (boundingRect G S cg) \<le> f_w (sceneGridRect G par) \<and>
                f_h (boundingRect G S cg) \<le> f_h (sceneGridRect G par)
            \<longrightarrow> containsF (sceneGridRect G par)
                  (translated (sceneGridRect G cg) (itemChange G S parent cg newPos))"
    using assms itemChange_inside by blast
  from A B C show ?thesis by (intro conjI)
qed

lemmas move_eval =
  itemChange_def snapToGrid_def c_round_def containsF_def translated_def boundingRect_def
  sceneGridRect_def gridToScene_def adjustF_def QRectF_null_def QRect_of_def width_def
  height_def leftF_def rightF_def topF_def bottomF_def example_container_def
  example_item_def Let_def

theorem move_snapped_and_inside_parent_witness:
  "itemChange 14 10 (Some (example_container (QRect_of 0 0 10 10) [1] None True))
      (example_item (QRect_of 0 0 3 3) (QRect_of 0 0 3 3) 0 0) (200, 3) = (84, 0) \<and>
   containsF (sceneGridRect 14 (example_container (QRect_of 0 0 10 10) [1] None True))
     (translated (sceneGridRect 14 (example_item (QRect_of 0 0 3 3) (QRect_of 0 0 3 3) 0 0))
        (84, 0)) \<and>
   itemChange 14 10 None (example_item (QRect_of 0 0 3 3) (QRect_of 0 0 3 3) 0 0) (200, 3)
     = (196, 0)"
proof -
  let ?par = "example_container (QRect_of 0 0 10 10) [1] None True"
  let ?cg = "example_item (QRect_of 0 0 3 3) (QRect_of 0 0 3 3) 0 0"
  have a: "itemChange 14 10 (Some ?par) ?cg (200, 3) = (84, 0)"
    by (simp add: move_eval)
  have b: "snapToGrid 14 200 = 196" "snapToGrid 14 3 = 0"
    by (simp_all add: move_eval)
  have h: "m_restrictSubcomponentPositioning ?par" "0 < width (m_gridRect ?cg)"
    "0 < height (m_gridRect ?cg)"
    "f_w (boundingRect 14 10 ?cg) \<le> f_w (sceneGridRect 14 ?par)"
    "f_h (boundingRect 14 10 ?cg) \<le> f_h (sceneGridRect 14 ?par)"
    by (simp_all add: move_eval)
  have "containsF (sceneGridRect 14 ?par)
          (translated (sceneGridRect 14 ?cg) (itemChange 14 10 (Some ?par) ?cg (200, 3)))"
    using move_snapped_and_inside_parent [of 14 10 "Some ?par" ?cg "(200, 3)"] h by simp
  moreover have "itemChange 14 10 None ?cg (200, 3) = (196, 0)"
    using move_snapped_and_inside_parent [of 14 10 None ?cg "(200, 3)"] b by simp
  ultimately show ?thesis using a by simp
qed

theorem move_not_kept_inside:
  "itemChange 14 10 (Some (example_container (QRect_of 0 0 10 10) [1] None True))
      (example_container (QRect_of 0 0 18 18) [2] (Some 0) True) (0, 0) = (- 126, - 126) \<and>
   \<not> containsF (sceneGridRect 14 (example_container (QRect_of 0 0 10 10) [1] None True))
       (translated (sceneGridRect 14 (example_container (QRect_of 0 0 18 18) [2] (Some 0) True))
          (- 126, - 126)) \<and>
   itemChange 14 10 (Some (example_container (QRect_of 0 0 10 10) [1] None True))
      (example_item (QRect_of 0 0 3 3) (QRect_of 0 0 3 3) 0 0) (2, 2) = (0, 0) \<and>
   \<not> containsF (sceneGridRect 14 (example_container (QRect_of 0 0 10 10) [1] None True))
       (translated (boundingRect 14 10 (example_item (QRect_of 0 0 3 3) (QRect_of 0 0 3 3) 0 0))
          (0, 0))"
  by (simp add: move_eval)

end
